theory Spec2Isabelle
  imports Main
begin

section \<open>The ServiceNow extension resource of the PagerDuty provider\<close>

text \<open>
  A shallow embedding of \<^verbatim>\<open>pagerduty/resource_pagerduty_extension_servicenow.go\<close>:
  the resource's schema, the conversion between the declared attributes and the remote
  extension object, and the five entry points Create, Read, Update, Delete and Import.
  Go values are modelled as follows: a struct is a record, a pointer that may be nil is
  an option, a slice is a list, an \<^verbatim>\<open>error\<close> result is an option of the error
  datatype, a run-time panic is the outcome \<open>Panic\<close>. Strings are byte strings, as
  in Go.
\<close>

subsection \<open>Data of the remote API client\<close>

text \<open>\<^verbatim>\<open>pagerduty.ServiceReference\<close>: the fields the resource reads and writes.\<close>

record ServiceReference =
  ref_Type :: string
  ref_ID :: string

text \<open>\<^verbatim>\<open>pagerduty.ExtensionSchemaReference\<close>.\<close>

record ExtensionSchemaReference =
  schema_Type :: string
  schema_ID :: string

text \<open>
  Run-time panics of the Go code: an index beyond the length of a slice, and a field
  access through a nil pointer.
\<close>

datatype go_panic = IndexOutOfRange | NilPointerDereference

datatype 'a go_result = Panic go_panic | Return 'a

text \<open>
  \<^verbatim>\<open>PagerDutyExtensionServicenowConfig\<close>: the six synchronisation settings, all
  strings, with the JSON names \<open>snow_user\<close>, \<open>snow_password\<close>, \<open>sync_options\<close>,
  \<open>target\<close>, \<open>task_type\<close> and \<open>referer\<close>.
\<close>

record PagerDutyExtensionServicenowConfig =
  User :: string
  Password :: string
  SyncOptions :: string
  Target :: string
  TaskType :: string
  Referer :: string

subsection \<open>JSON encoding of the configuration\<close>

text \<open>
  The extension's \<^verbatim>\<open>Config\<close> field has type \<^verbatim>\<open>interface{}\<close>. It holds either the
  pointer to the configuration struct that \<^verbatim>\<open>buildExtensionServicenowStruct\<close> stores,
  or the generic value that the client decoded from a response (\<open>JNull\<close> for the nil
  interface). \<^verbatim>\<open>encoding/json\<close> is modelled at the level of JSON values: an object
  lists its members in the order in which the encoder writes them (the struct's fields
  in declaration order, the keys of a decoded map in sorted order). The numbers of a
  decoded value are never inspected by the resource; they are kept as integers.
\<close>

datatype json =
    JNull
  | JBool bool
  | JNumber int
  | JString string
  | JArray "json list"
  | JObject "(string \<times> json) list"

datatype go_interface =
    StructPtr PagerDutyExtensionServicenowConfig
  | Decoded json

text \<open>
  \<^verbatim>\<open>json.Marshal\<close> coerces every string to valid UTF-8: each byte that does not start a
  well-formed encoding is written as the replacement character U+FFFD, whose encoding is
  the bytes EF BF BD. \<open>rune_size\<close> is the length of the well-formed encoding at the head
  of a string, and 0 when there is none (\<^verbatim>\<open>utf8.DecodeRuneInString\<close> returning
  \<^verbatim>\<open>RuneError\<close> with size 1); \<open>valid_utf8\<close> is \<^verbatim>\<open>utf8.ValidString\<close>.
\<close>

definition byte_in :: "nat \<Rightarrow> nat \<Rightarrow> char \<Rightarrow> bool" where
  "byte_in lo hi b = (lo \<le> (of_char b :: nat) \<and> (of_char b :: nat) \<le> hi)"

definition rune_size :: "string \<Rightarrow> nat" where
  "rune_size s =
     (case s of
        [] \<Rightarrow> 0
      | b0 # bs \<Rightarrow>
          if byte_in 0x00 0x7F b0 then 1
          else if byte_in 0xC2 0xDF b0 then
            (case bs of b1 # _ \<Rightarrow> if byte_in 0x80 0xBF b1 then 2 else 0 | _ \<Rightarrow> 0)
          else if byte_in 0xE0 0xEF b0 then
            (case bs of
               b1 # b2 # _ \<Rightarrow>
                 if (if b0 = CHR 0xE0 then byte_in 0xA0 0xBF b1
                     else if b0 = CHR 0xED then byte_in 0x80 0x9F b1
                     else byte_in 0x80 0xBF b1) \<and> byte_in 0x80 0xBF b2
                 then 3 else 0
             | _ \<Rightarrow> 0)
          else if byte_in 0xF0 0xF4 b0 then
            (case bs of
               b1 # b2 # b3 # _ \<Rightarrow>
                 if (if b0 = CHR 0xF0 then byte_in 0x90 0xBF b1
                     else if b0 = CHR 0xF4 then byte_in 0x80 0x8F b1
                     else byte_in 0x80 0xBF b1) \<and> byte_in 0x80 0xBF b2 \<and> byte_in 0x80 0xBF b3
                 then 4 else 0
             | _ \<Rightarrow> 0)
          else 0)"

function coerce_utf8 :: "string \<Rightarrow> string" where
  "coerce_utf8 s =
     (if s = [] then []
      else if rune_size s = 0 then [CHR 0xEF, CHR 0xBF, CHR 0xBD] @ coerce_utf8 (tl s)
      else take (rune_size s) s @ coerce_utf8 (drop (rune_size s) s))"
  by pat_completeness auto
termination
  by (relation "measure length") (auto simp: neq_Nil_conv)

function valid_utf8 :: "string \<Rightarrow> bool" where
  "valid_utf8 s =
     (if s = [] then True
      else if rune_size s = 0 then False
      else valid_utf8 (drop (rune_size s) s))"
  by pat_completeness auto
termination
  by (relation "measure length") (auto simp: neq_Nil_conv)

declare coerce_utf8.simps [simp del] valid_utf8.simps [simp del]

fun coerce_json :: "json \<Rightarrow> json" where
  "coerce_json (JString s) = JString (coerce_utf8 s)"
| "coerce_json (JArray xs) = JArray (map coerce_json xs)"
| "coerce_json (JObject kvs) = JObject (map (\<lambda>(k, v). (coerce_utf8 k, coerce_json v)) kvs)"
| "coerce_json j = j"

text \<open>
  \<^verbatim>\<open>json.Marshal(extension.Config)\<close>. A struct is written as the object of its six
  tagged fields; a decoded value is written as it is. The call cannot fail on either
  (the source drops its error).
\<close>

fun json_Marshal :: "go_interface \<Rightarrow> json" where
  "json_Marshal (StructPtr c) =
     JObject
       [(''snow_user'', JString (coerce_utf8 (User c))),
        (''snow_password'', JString (coerce_utf8 (Password c))),
        (''sync_options'', JString (coerce_utf8 (SyncOptions c))),
        (''target'', JString (coerce_utf8 (Target c))),
        (''task_type'', JString (coerce_utf8 (TaskType c))),
        (''referer'', JString (coerce_utf8 (Referer c)))]"
| "json_Marshal (Decoded j) = coerce_json j"

text \<open>
  \<^verbatim>\<open>json.Unmarshal(b, config)\<close> into the struct. A member of the object is stored in
  the field whose JSON name equals the key, or else equals it under Unicode simple case
  folding; since the names are lower-case ASCII, the only non-ASCII runes that fold onto
  them are U+017F (long s, bytes C5 BF) and U+212A (Kelvin sign, bytes E2 84 AA). A
  string is assigned, \<open>null\<close> leaves the field as it is, any other value leaves the field
  as it is and records an \<^verbatim>\<open>UnmarshalTypeError\<close>; decoding goes on, and the first
  error recorded is the one returned. \<open>null\<close> at the top leaves the struct as it is; a
  top-level value that is neither \<open>null\<close> nor an object is a type error.
\<close>

datatype json_error = UnmarshalTypeError string string

definition to_lower :: "char \<Rightarrow> char" where
  "to_lower c = (if byte_in 0x41 0x5A c then char_of ((of_char c :: nat) + 32) else c)"

fun fold_key :: "string \<Rightarrow> string" where
  "fold_key (c0 # c1 # c2 # cs) =
     (if c0 = CHR 0xE2 \<and> c1 = CHR 0x84 \<and> c2 = CHR 0xAA then CHR ''k'' # fold_key cs
      else if c0 = CHR 0xC5 \<and> c1 = CHR 0xBF then CHR ''s'' # fold_key (c2 # cs)
      else to_lower c0 # fold_key (c1 # c2 # cs))"
| "fold_key [c0, c1] =
     (if c0 = CHR 0xC5 \<and> c1 = CHR 0xBF then [CHR ''s'']
      else to_lower c0 # fold_key [c1])"
| "fold_key [c0] = [to_lower c0]"
| "fold_key [] = []"

definition config_fields :: "string list" where
  "config_fields =
     [''snow_user'', ''snow_password'', ''sync_options'', ''target'', ''task_type'', ''referer'']"

definition find_field :: "string \<Rightarrow> string option" where
  "find_field key =
     (case find (\<lambda>name. name = key) config_fields of
        Some name \<Rightarrow> Some name
      | None \<Rightarrow> find (\<lambda>name. fold_key name = fold_key key) config_fields)"

definition set_field ::
  "string \<Rightarrow> string \<Rightarrow> PagerDutyExtensionServicenowConfig \<Rightarrow> PagerDutyExtensionServicenowConfig"
where
  "set_field name v c =
     (if name = ''snow_user'' then c\<lparr>User := v\<rparr>
      else if name = ''snow_password'' then c\<lparr>Password := v\<rparr>
      else if name = ''sync_options'' then c\<lparr>SyncOptions := v\<rparr>
      else if name = ''target'' then c\<lparr>Target := v\<rparr>
      else if name = ''task_type'' then c\<lparr>TaskType := v\<rparr>
      else if name = ''referer'' then c\<lparr>Referer := v\<rparr>
      else c)"

fun json_kind :: "json \<Rightarrow> string" where
  "json_kind JNull = ''null''"
| "json_kind (JBool _) = ''bool''"
| "json_kind (JNumber _) = ''number''"
| "json_kind (JString _) = ''string''"
| "json_kind (JArray _) = ''array''"
| "json_kind (JObject _) = ''object''"

definition saveError :: "json_error option \<Rightarrow> json_error \<Rightarrow> json_error option" where
  "saveError saved e = (case saved of None \<Rightarrow> Some e | Some first \<Rightarrow> Some first)"

fun unmarshal_members ::
  "(string \<times> json) list \<Rightarrow> PagerDutyExtensionServicenowConfig \<Rightarrow> json_error option \<Rightarrow>
   json_error option \<times> PagerDutyExtensionServicenowConfig" where
  "unmarshal_members [] c saved = (saved, c)"
| "unmarshal_members ((key, v) # rest) c saved =
     (case find_field key of
        None \<Rightarrow> unmarshal_members rest c saved
      | Some name \<Rightarrow>
          (case v of
             JString s \<Rightarrow> unmarshal_members rest (set_field name s c) saved
           | JNull \<Rightarrow> unmarshal_members rest c saved
           | _ \<Rightarrow> unmarshal_members rest c
                   (saveError saved (UnmarshalTypeError (json_kind v) name))))"

definition json_Unmarshal ::
  "json \<Rightarrow> PagerDutyExtensionServicenowConfig \<Rightarrow>
   json_error option \<times> PagerDutyExtensionServicenowConfig" where
  "json_Unmarshal b config =
     (case b of
        JNull \<Rightarrow> (None, config)
      | JObject members \<Rightarrow> unmarshal_members members config None
      | _ \<Rightarrow> (Some (UnmarshalTypeError (json_kind b) ''PagerDutyExtensionServicenowConfig''),
              config))"

text \<open>\<^verbatim>\<open>new(PagerDutyExtensionServicenowConfig)\<close>: every field is the empty string.\<close>

definition new_config :: PagerDutyExtensionServicenowConfig where
  "new_config =
     \<lparr>User = [], Password = [], SyncOptions = [], Target = [], TaskType = [], Referer = []\<rparr>"

text \<open>A configuration whose six strings are well-formed UTF-8.\<close>

definition valid_config :: "PagerDutyExtensionServicenowConfig \<Rightarrow> bool" where
  "valid_config c =
     (valid_utf8 (User c) \<and> valid_utf8 (Password c) \<and> valid_utf8 (SyncOptions c) \<and>
      valid_utf8 (Target c) \<and> valid_utf8 (TaskType c) \<and> valid_utf8 (Referer c))"

subsection \<open>Flattening the target objects\<close>

text \<open>
  \<^verbatim>\<open>flattenExtensionServicenowObjects\<close>: the loop over \<^verbatim>\<open>serviceList\<close>, with the
  slice \<^verbatim>\<open>services\<close> as accumulator. The elements are pointers; reading
  \<^verbatim>\<open>s.Type\<close> through a nil element panics.
\<close>

fun flatten_loop :: "ServiceReference option list \<Rightarrow> string list \<Rightarrow> string list go_result" where
  "flatten_loop [] services = Return services"
| "flatten_loop (None # rest) services = Panic NilPointerDereference"
| "flatten_loop (Some s # rest) services =
     (if ref_Type s = ''service_reference''
      then flatten_loop rest (services @ [ref_ID s])
      else flatten_loop rest services)"

definition flattenExtensionServicenowObjects ::
  "ServiceReference option list \<Rightarrow> string list go_result" where
  "flattenExtensionServicenowObjects serviceList = flatten_loop serviceList []"

subsection \<open>Errors, the extension object and the client\<close>

text \<open>
  Values of Go's \<^verbatim>\<open>error\<close> interface that reach this file: the client's typed
  \<^verbatim>\<open>*pagerduty.Error\<close> with its numeric code and message, an error made from a
  string (\<^verbatim>\<open>fmt.Errorf\<close>, or any other untyped error of the client), the error that
  the not-found classifier wraps around a cause, and the two errors of \<^verbatim>\<open>d.Set\<close>
  (no such attribute; a value that cannot be converted to the attribute's type).
\<close>

datatype go_error =
    PagerDutyError int string
  | ErrorString string
  | Wrapped go_error
  | InvalidAddress string
  | UnconvertibleType string

text \<open>
  \<^verbatim>\<open>pagerduty.Extension\<close>, with the fields this file reads or writes.
  \<^verbatim>\<open>ExtensionSchema\<close> is a pointer, \<^verbatim>\<open>ExtensionObjects\<close> a slice of pointers.
\<close>

record Extension =
  ID :: string
  Summary :: string
  Type :: string
  HTMLURL :: string
  Name :: string
  EndpointURL :: string
  ExtensionObjects :: "ServiceReference option list"
  ExtensionSchema :: "ExtensionSchemaReference option"
  Config :: go_interface

text \<open>
  \<^verbatim>\<open>meta\<close>: the client's four calls on extensions, and what else the file takes from
  outside. A call returns the error or the value. \<^verbatim>\<open>Get\<close> is called repeatedly by
  Read and the remote side may answer differently each time, so its answer depends on
  the number of calls made before; \<open>Get_latency\<close> is the time in milliseconds that
  the call takes. \<open>is_not_found\<close> is the test used by the not-found classifier, and
  \<open>Set_List\<close> is the order in which the \<^verbatim>\<open>List()\<close> method of \<^verbatim>\<open>schema.Set\<close> enumerates a set
  (by hash code).
\<close>

record Meta =
  Extensions_Create :: "Extension \<Rightarrow> go_error + Extension"
  Extensions_Get :: "nat \<Rightarrow> string \<Rightarrow> go_error + Extension"
  Extensions_Update :: "string \<Rightarrow> Extension \<Rightarrow> go_error option"
  Extensions_Delete :: "string \<Rightarrow> go_error option"
  Get_latency :: "nat \<Rightarrow> nat"
  is_not_found :: "go_error \<Rightarrow> bool"
  Set_List :: "string set \<Rightarrow> string list"

subsection \<open>The resource data\<close>

text \<open>The \<^verbatim>\<open>Schema\<close> map of \<^verbatim>\<open>resourcePagerDutyExtensionServicenow\<close>: the type of each attribute.\<close>

datatype ValueType = TypeString | TypeSet

definition Schema :: "string \<Rightarrow> ValueType option" where
  "Schema =
     map_of
       [(''name'', TypeString),
        (''html_url'', TypeString),
        (''type'', TypeString),
        (''endpoint_url'', TypeString),
        (''extension_objects'', TypeSet),
        (''extension_schema'', TypeString),
        (''snow_user'', TypeString),
        (''snow_password'', TypeString),
        (''sync_options'', TypeString),
        (''target'', TypeString),
        (''task_type'', TypeString),
        (''referer'', TypeString)]"

text \<open>
  \<^verbatim>\<open>*schema.ResourceData\<close>: the identity of the resource and the attributes as
  \<^verbatim>\<open>d.Get\<close> sees them (the declared values overlaid by what \<^verbatim>\<open>d.Set\<close> has written),
  the string attributes and the set attributes kept apart.
\<close>

record ResourceData =
  rd_Id :: string
  rd_strings :: "string \<Rightarrow> string option"
  rd_sets :: "string \<Rightarrow> string set option"

text \<open>The Go values that this file passes to \<^verbatim>\<open>d.Set\<close>.\<close>

datatype go_value =
    GoString string
  | GoStrings "string list"
  | GoSchemaRef "ExtensionSchemaReference option"

text \<open>
  \<^verbatim>\<open>d.Set(key, value)\<close>. A key that the schema does not have is refused. A string
  attribute takes a string; a nil pointer stores the empty string; a pointer to a struct
  is passed on as it is, cannot be converted to a string, and is refused with the
  attribute left as it was. A set attribute takes a slice of strings as the set of its
  elements. The error is returned and the data is unchanged when the write is refused
  (the SDK panics instead only when it is run with \<^verbatim>\<open>TF_SCHEMA_PANIC_ON_ERROR\<close>, as
  its own tests do). The file never passes a slice for a string attribute nor a string
  or a pointer for the set attribute; these combinations are refused here as well.
\<close>

definition rd_Set ::
  "string \<Rightarrow> go_value \<Rightarrow> ResourceData \<Rightarrow> go_error option \<times> ResourceData" where
  "rd_Set key v d =
     (case Schema key of
        None \<Rightarrow> (Some (InvalidAddress key), d)
      | Some TypeString \<Rightarrow>
          (case v of
             GoString s \<Rightarrow> (None, d\<lparr>rd_strings := (rd_strings d)(key \<mapsto> s)\<rparr>)
           | GoSchemaRef None \<Rightarrow> (None, d\<lparr>rd_strings := (rd_strings d)(key \<mapsto> [])\<rparr>)
           | _ \<Rightarrow> (Some (UnconvertibleType key), d))
      | Some TypeSet \<Rightarrow>
          (case v of
             GoStrings xs \<Rightarrow> (None, d\<lparr>rd_sets := (rd_sets d)(key \<mapsto> set xs)\<rparr>)
           | _ \<Rightarrow> (Some (UnconvertibleType key), d)))"

text \<open>\<^verbatim>\<open>d.Get(key).(string)\<close> and \<^verbatim>\<open>d.Get(key)\<close> asserted to be a set: the zero value when unset.\<close>

definition rd_Get_string :: "ResourceData \<Rightarrow> string \<Rightarrow> string" where
  "rd_Get_string d key = (case rd_strings d key of Some s \<Rightarrow> s | None \<Rightarrow> [])"

definition rd_Get_set :: "ResourceData \<Rightarrow> string \<Rightarrow> string set" where
  "rd_Get_set d key = (case rd_sets d key of Some S \<Rightarrow> S | None \<Rightarrow> {})"

subsection \<open>State: resource data, log, clock\<close>

text \<open>
  What an operation changes: the resource data \<^verbatim>\<open>d\<close>, the lines this file writes
  with \<^verbatim>\<open>log.Printf\<close> (the format with its arguments), the clock in milliseconds, and
  the number of \<^verbatim>\<open>Get\<close> calls made so far.
\<close>

datatype printf_arg = ArgString string | ArgError go_error

record state =
  rd :: ResourceData
  logs :: "(string \<times> printf_arg list) list"
  clock :: nat
  gets :: nat

definition log_Printf :: "string \<Rightarrow> printf_arg list \<Rightarrow> state \<Rightarrow> state" where
  "log_Printf format args st = st\<lparr>logs := logs st @ [(format, args)]\<rparr>"

definition SetId :: "string \<Rightarrow> state \<Rightarrow> state" where
  "SetId v st = st\<lparr>rd := (rd st)\<lparr>rd_Id := v\<rparr>\<rparr>"

definition d_Set :: "string \<Rightarrow> go_value \<Rightarrow> state \<Rightarrow> go_error option \<times> state" where
  "d_Set key v st = (case rd_Set key v (rd st) of (err, d') \<Rightarrow> (err, st\<lparr>rd := d'\<rparr>))"

text \<open>A \<^verbatim>\<open>d.Set\<close> whose error the source does not look at.\<close>

definition d_Set_ignored :: "string \<Rightarrow> go_value \<Rightarrow> state \<Rightarrow> state" where
  "d_Set_ignored key v st = snd (d_Set key v st)"

definition sleep :: "nat \<Rightarrow> state \<Rightarrow> state" where
  "sleep ms st = st\<lparr>clock := clock st + ms\<rparr>"

text \<open>\<^verbatim>\<open>client.Extensions.Get(d.Id())\<close>: the answer to this call, the call counted and timed.\<close>

definition call_Get :: "Meta \<Rightarrow> state \<Rightarrow> (go_error + Extension) \<times> state" where
  "call_Get meta st =
     (Extensions_Get meta (gets st) (rd_Id (rd st)),
      st\<lparr>clock := clock st + Get_latency meta (gets st), gets := gets st + 1\<rparr>)"

text \<open>
  Indexing a slice: \<open>None\<close> where Go panics with an index out of range.
\<close>

definition go_index :: "'a list \<Rightarrow> nat \<Rightarrow> 'a option" where
  "go_index xs i = (if i < length xs then Some (xs ! i) else None)"

subsection \<open>The retry helper and the not-found classifier\<close>

text \<open>
  \<^verbatim>\<open>resource.Retry(timeout, f)\<close> of the plugin SDK, as a sequential loop on the clock.
  \<open>f\<close> is called at once; when it returns no error, or an error that is not
  retryable, that is the result. After a retryable error the helper waits (500 ms, then
  twice the last wait, at most 10 s) and calls \<open>f\<close> again, unless the deadline falls
  within that wait: then it returns at the deadline (or when \<open>f\<close> returned, if that was
  later) with the last error of \<open>f\<close>. A call of \<open>f\<close> in progress at the deadline
  is left to finish; the SDK gives it a grace period of 30 s for that, and a call that
  outlasts the grace period goes on concurrently with the caller, which is outside this
  sequential model. The lines that the SDK logs itself are not recorded. A loop whose
  \<open>f\<close> never returns a result that ends it does not return: the result is an option.
\<close>

record RetryError =
  Err :: go_error
  Retryable :: bool

definition RetryableError :: "go_error \<Rightarrow> RetryError" where
  "RetryableError err = \<lparr>Err = err, Retryable = True\<rparr>"

definition next_wait :: "nat \<Rightarrow> nat" where
  "next_wait wait =
     (if 2 * wait < 500 then 500 else if 10000 < 2 * wait then 10000 else 2 * wait)"

partial_function (option) Retry_loop ::
  "nat \<Rightarrow> (state \<Rightarrow> (RetryError option \<times> state) go_result) \<Rightarrow> nat \<Rightarrow> state \<Rightarrow>
   (go_error option \<times> state) go_result option" where
  "Retry_loop deadline f wait st =
     (case f st of
        Panic p \<Rightarrow> Some (Panic p)
      | Return (None, st') \<Rightarrow> Some (Return (None, st'))
      | Return (Some rerr, st') \<Rightarrow>
          if \<not> Retryable rerr then Some (Return (Some (Err rerr), st'))
          else if deadline \<le> clock st' + next_wait wait
          then Some (Return (Some (Err rerr), st'\<lparr>clock := max deadline (clock st')\<rparr>))
          else Retry_loop deadline f (next_wait wait) (sleep (next_wait wait) st'))"

definition Retry ::
  "nat \<Rightarrow> (state \<Rightarrow> (RetryError option \<times> state) go_result) \<Rightarrow> state \<Rightarrow>
   (go_error option \<times> state) go_result option" where
  "Retry timeout f st = Retry_loop (clock st + timeout) f 100 st"

text \<open>
  Modelled from the spec: \<^verbatim>\<open>handleNotFoundError\<close> is defined in another file of the
  provider. The specification describes it as a classifier that inspects an error and,
  if it represents true absence, clears the identity and returns nil, and returns a
  wrapped retryable error otherwise. Which errors represent absence is the parameter
  \<open>is_not_found\<close>.
\<close>

definition handleNotFoundError :: "Meta \<Rightarrow> go_error \<Rightarrow> state \<Rightarrow> go_error option \<times> state" where
  "handleNotFoundError meta err st =
     (if is_not_found meta err then (None, SetId [] st) else (Some (Wrapped err), st))"

subsection \<open>Building the extension from the declared attributes\<close>

text \<open>\<^verbatim>\<open>expandServiceNowServiceObjects\<close>: one service reference for each element of the set.\<close>

definition expandServiceNowServiceObjects ::
  "Meta \<Rightarrow> string set \<Rightarrow> ServiceReference option list" where
  "expandServiceNowServiceObjects meta v =
     map (\<lambda>srv. Some \<lparr>ref_Type = ''service_reference'', ref_ID = srv\<rparr>) (Set_List meta v)"

definition buildExtensionServicenowStruct :: "Meta \<Rightarrow> ResourceData \<Rightarrow> Extension" where
  "buildExtensionServicenowStruct meta d =
     \<lparr>ID = [],
      Summary = [],
      Type = ''extension'',
      HTMLURL = [],
      Name = rd_Get_string d ''name'',
      EndpointURL = rd_Get_string d ''endpoint_url'',
      ExtensionObjects = expandServiceNowServiceObjects meta (rd_Get_set d ''extension_objects''),
      ExtensionSchema =
        Some \<lparr>schema_Type = ''extension_schema_reference'',
              schema_ID = rd_Get_string d ''extension_schema''\<rparr>,
      Config =
        StructPtr
          \<lparr>User = rd_Get_string d ''snow_user'',
           Password = rd_Get_string d ''snow_password'',
           SyncOptions = rd_Get_string d ''sync_options'',
           Target = rd_Get_string d ''target'',
           TaskType = rd_Get_string d ''task_type'',
           Referer = rd_Get_string d ''referer''\<rparr>\<rparr>"

subsection \<open>Read\<close>

text \<open>
  The function given to \<^verbatim>\<open>resource.Retry\<close> in
  \<^verbatim>\<open>resourcePagerDutyExtensionServicenowRead\<close>: one \<^verbatim>\<open>Get\<close> and what follows it.
\<close>

definition read_attempt :: "Meta \<Rightarrow> state \<Rightarrow> (RetryError option \<times> state) go_result" where
  "read_attempt meta st0 =
     (case call_Get meta st0 of
        (Inl err, st) \<Rightarrow>
          (case handleNotFoundError meta err st of
             (Some errResp, st1) \<Rightarrow> Return (Some (RetryableError errResp), sleep 2000 st1)
           | (None, st1) \<Rightarrow> Return (None, st1))
      | (Inr extension, st) \<Rightarrow>
          (let st1 = d_Set_ignored ''summary'' (GoString (Summary extension)) st;
               st2 = d_Set_ignored ''name'' (GoString (Name extension)) st1;
               st3 = d_Set_ignored ''endpoint_url'' (GoString (EndpointURL extension)) st2;
               st4 = d_Set_ignored ''html_url'' (GoString (HTMLURL extension)) st3
           in case flattenExtensionServicenowObjects (ExtensionObjects extension) of
                Panic p \<Rightarrow> Panic p
              | Return services \<Rightarrow>
                  (let st5 =
                         (case d_Set ''extension_objects'' (GoStrings services) st4 of
                            (Some err, st') \<Rightarrow>
                              log_Printf ''[WARN] error setting extension_objects: %s''
                                [ArgError err] st'
                          | (None, st') \<Rightarrow> st');
                       st6 = d_Set_ignored ''extension_schema''
                               (GoSchemaRef (ExtensionSchema extension)) st5;
                       b = json_Marshal (Config extension);
                       config = snd (json_Unmarshal b new_config);
                       st7 = d_Set_ignored ''snow_user'' (GoString (User config)) st6;
                       st8 = d_Set_ignored ''snow_password'' (GoString (Password config)) st7;
                       st9 = d_Set_ignored ''sync_options'' (GoString (SyncOptions config)) st8;
                       st10 = d_Set_ignored ''target'' (GoString (Target config)) st9;
                       st11 = d_Set_ignored ''task_type'' (GoString (TaskType config)) st10;
                       st12 = d_Set_ignored ''referer'' (GoString (Referer config)) st11
                   in Return (None, st12))))"

definition resourcePagerDutyExtensionServicenowRead ::
  "Meta \<Rightarrow> state \<Rightarrow> (go_error option \<times> state) go_result option" where
  "resourcePagerDutyExtensionServicenowRead meta st =
     Retry (2 * 60 * 1000) (read_attempt meta)
       (log_Printf ''[INFO] Reading PagerDuty extension %s'' [ArgString (rd_Id (rd st))] st)"

subsection \<open>Create, Update, Delete, Import\<close>

definition resourcePagerDutyExtensionServicenowCreate ::
  "Meta \<Rightarrow> state \<Rightarrow> (go_error option \<times> state) go_result option" where
  "resourcePagerDutyExtensionServicenowCreate meta st =
     (let extension = buildExtensionServicenowStruct meta (rd st);
          st1 = log_Printf ''[INFO] Creating PagerDuty extension %s''
                  [ArgString (Name extension)] st
      in case Extensions_Create meta extension of
           Inl err \<Rightarrow> Some (Return (Some err, st1))
         | Inr created \<Rightarrow>
             resourcePagerDutyExtensionServicenowRead meta (SetId (ID created) st1))"

definition resourcePagerDutyExtensionServicenowUpdate ::
  "Meta \<Rightarrow> state \<Rightarrow> (go_error option \<times> state) go_result option" where
  "resourcePagerDutyExtensionServicenowUpdate meta st =
     (let extension = buildExtensionServicenowStruct meta (rd st);
          st1 = log_Printf ''[INFO] Updating PagerDuty extension %s''
                  [ArgString (rd_Id (rd st))] st
      in case Extensions_Update meta (rd_Id (rd st1)) extension of
           Some err \<Rightarrow> Some (Return (Some err, st1))
         | None \<Rightarrow> resourcePagerDutyExtensionServicenowRead meta st1)"

definition resourcePagerDutyExtensionServicenowDelete ::
  "Meta \<Rightarrow> state \<Rightarrow> go_error option \<times> state" where
  "resourcePagerDutyExtensionServicenowDelete meta st =
     (let st1 = log_Printf ''[INFO] Deleting PagerDuty extension %s''
                  [ArgString (rd_Id (rd st))] st
      in case Extensions_Delete meta (rd_Id (rd st1)) of
           Some err \<Rightarrow>
             (case err of
                PagerDutyError code message \<Rightarrow>
                  if code = 5001
                  then (None,
                        log_Printf ''[WARN] Extension (%s) not found, removing from state''
                          [ArgString (rd_Id (rd st1))] st1)
                  else (Some err, st1)
              | _ \<Rightarrow> (Some err, st1))
         | None \<Rightarrow> (None, SetId [] st1))"

text \<open>
  Import returns the slice of resource data with the error. \<^verbatim>\<open>ExtensionObjects[0]\<close>
  panics on an empty slice, \<^verbatim>\<open>.ID\<close> panics through a nil pointer.
\<close>

definition resourcePagerDutyExtensionServicenowImport ::
  "Meta \<Rightarrow> state \<Rightarrow> ((ResourceData list \<times> go_error option) \<times> state) go_result" where
  "resourcePagerDutyExtensionServicenowImport meta st0 =
     (case call_Get meta st0 of
        (Inl err, st) \<Rightarrow>
          Return
            (([], Some (ErrorString
               ''error importing pagerduty_extension. Expecting an importation ID for extension'')),
             st)
      | (Inr extension, st) \<Rightarrow>
          (let st1 = d_Set_ignored ''endpoint_url'' (GoString (EndpointURL extension)) st
           in case go_index (ExtensionObjects extension) 0 of
                None \<Rightarrow> Panic IndexOutOfRange
              | Some None \<Rightarrow> Panic NilPointerDereference
              | Some (Some first) \<Rightarrow>
                  (let st2 = d_Set_ignored ''extension_objects'' (GoStrings [ref_ID first]) st1
                   in case ExtensionSchema extension of
                        None \<Rightarrow> Panic NilPointerDereference
                      | Some schema \<Rightarrow>
                          (let st3 = d_Set_ignored ''extension_schema''
                                       (GoString (schema_ID schema)) st2
                           in Return (([rd st3], None), st3)))))"

subsection \<open>Sample values\<close>

text \<open>
  Declared attributes of an extension, the extension as the remote side returns it, and
  three behaviours of the remote side, for evaluating the operations.
\<close>

definition sample_data :: ResourceData where
  "sample_data =
     \<lparr>rd_Id = ''PEXT001'',
      rd_strings =
        map_of
          [(''name'', ''snow''),
           (''endpoint_url'', ''https://dev.service-now.com/webhook''),
           (''extension_schema'', ''PJFWPEP''),
           (''snow_user'', ''admin''),
           (''snow_password'', ''s3cret''),
           (''sync_options'', ''manual_sync''),
           (''target'', ''https://dev.service-now.com/incident''),
           (''task_type'', ''incident''),
           (''referer'', ''None'')],
      rd_sets = map_of [(''extension_objects'', {''PSVC001''})]\<rparr>"

definition sample_state :: state where
  "sample_state = \<lparr>rd = sample_data, logs = [], clock = 0, gets = 0\<rparr>"

definition sample_extension :: Extension where
  "sample_extension =
     \<lparr>ID = ''PEXT001'',
      Summary = ''snow'',
      Type = ''extension'',
      HTMLURL = ''https://example.pagerduty.com/extensions/PEXT001'',
      Name = ''snow'',
      EndpointURL = ''https://dev.service-now.com/webhook'',
      ExtensionObjects =
        [Some \<lparr>ref_Type = ''service_reference'', ref_ID = ''PSVC001''\<rparr>,
         Some \<lparr>ref_Type = ''service_reference'', ref_ID = ''PSVC002''\<rparr>],
      ExtensionSchema =
        Some \<lparr>schema_Type = ''extension_schema_reference'', schema_ID = ''PJFWPEP''\<rparr>,
      Config =
        Decoded
          (JObject
            [(''referer'', JString ''None''),
             (''snow_password'', JString ''s3cret''),
             (''snow_user'', JString ''admin''),
             (''sync_options'', JString ''manual_sync''),
             (''target'', JString ''https://dev.service-now.com/incident''),
             (''task_type'', JString ''incident'')])\<rparr>"

definition sample_meta :: Meta where
  "sample_meta =
     \<lparr>Extensions_Create = (\<lambda>extension. Inr sample_extension),
      Extensions_Get = (\<lambda>n id. Inr sample_extension),
      Extensions_Update = (\<lambda>id extension. None),
      Extensions_Delete = (\<lambda>id. None),
      Get_latency = (\<lambda>n. 150),
      is_not_found = (\<lambda>err. err = PagerDutyError 2100 ''Not Found''),
      Set_List = (\<lambda>v. [''PSVC001''])\<rparr>"

text \<open>The remote side after the extension has been deleted.\<close>

definition sample_meta_gone :: Meta where
  "sample_meta_gone =
     sample_meta
       \<lparr>Extensions_Get := (\<lambda>n id. Inl (PagerDutyError 2100 ''Not Found'')),
        Extensions_Update := (\<lambda>id extension. Some (PagerDutyError 2100 ''Not Found'')),
        Extensions_Delete := (\<lambda>id. Some (PagerDutyError 5001 ''Extension Not Found''))\<rparr>"

text \<open>The remote side out of reach.\<close>

definition sample_meta_down :: Meta where
  "sample_meta_down =
     sample_meta
       \<lparr>Extensions_Create := (\<lambda>extension. Inl (ErrorString ''connection refused'')),
        Extensions_Get := (\<lambda>n id. Inl (ErrorString ''connection refused'')),
        Extensions_Update := (\<lambda>id extension. Some (ErrorString ''connection refused'')),
        Extensions_Delete := (\<lambda>id. Some (ErrorString ''connection refused''))\<rparr>"

text \<open>An extension whose configuration has a number where a string is expected.\<close>

definition sample_extension_bad_config :: Extension where
  "sample_extension_bad_config =
     sample_extension
       \<lparr>Config := Decoded (JObject [(''snow_user'', JNumber 42), (''target'', JString ''incident'')])\<rparr>"

definition sample_meta_bad_config :: Meta where
  "sample_meta_bad_config =
     sample_meta\<lparr>Extensions_Get := (\<lambda>n id. Inr sample_extension_bad_config)\<rparr>"

text \<open>Resource data that hold the identity only, and the declared data before Create.\<close>

definition sample_state_bare :: state where
  "sample_state_bare =
     \<lparr>rd = \<lparr>rd_Id = ''PEXT001'', rd_strings = Map.empty, rd_sets = Map.empty\<rparr>,
      logs = [], clock = 0, gets = 0\<rparr>"



subsection \<open>The strings written by a successful Read\<close>

text \<open>
  The string attributes after an attempt of Read whose \<^verbatim>\<open>Get\<close> succeeded, as a
  function of the extension and of the attributes before; used to state the lemmas on
  Read below.
\<close>

definition read_strings ::
  "Extension \<Rightarrow> (string \<Rightarrow> string option) \<Rightarrow> (string \<Rightarrow> string option)" where
  "read_strings extension m =
     (let m4 = m(''name'' \<mapsto> Name extension, ''endpoint_url'' \<mapsto> EndpointURL extension,
                 ''html_url'' \<mapsto> HTMLURL extension);
          m6 = (case ExtensionSchema extension of
                  None \<Rightarrow> m4(''extension_schema'' \<mapsto> [])
                | Some _ \<Rightarrow> m4);
          config = snd (json_Unmarshal (json_Marshal (Config extension)) new_config)
      in m6(''snow_user'' \<mapsto> User config, ''snow_password'' \<mapsto> Password config,
            ''sync_options'' \<mapsto> SyncOptions config, ''target'' \<mapsto> Target config,
            ''task_type'' \<mapsto> TaskType config, ''referer'' \<mapsto> Referer config))"

subsection \<open>Properties of the flattening\<close>

lemma flatten_loop_acc:
  "list_all (\<lambda>s. s \<noteq> None) xs \<Longrightarrow>
   flatten_loop xs acc =
     Return (acc @ map ref_ID (filter (\<lambda>s. ref_Type s = ''service_reference'') (map the xs)))"
proof (induction xs arbitrary: acc)
  case Nil
  show ?case by simp
next
  case (Cons x xs)
  from Cons.prems obtain s where x: "x = Some s" by auto
  from Cons.prems have rest: "list_all (\<lambda>s. s \<noteq> None) xs" by simp
  show ?case using Cons.IH [OF rest] by (simp add: x)
qed

lemma flatten_non_nil:
  "list_all (\<lambda>s. s \<noteq> None) xs \<Longrightarrow>
   flattenExtensionServicenowObjects xs =
     Return (map ref_ID (filter (\<lambda>s. ref_Type s = ''service_reference'') (map the xs)))"
  unfolding flattenExtensionServicenowObjects_def
  using flatten_loop_acc [of xs "[]"] by simp

text \<open>
  Claim C4. For every list of (non-nil) target-object references, the flattening returns
  the identifiers of exactly the references whose type tag is \<open>service_reference\<close>, in
  the order of the list; references with any other tag contribute nothing.
\<close>

theorem flatten_keeps_service_references:
  "list_all (\<lambda>s. s \<noteq> None) serviceList \<Longrightarrow>
   flattenExtensionServicenowObjects serviceList =
     Return (map ref_ID (filter (\<lambda>s. ref_Type s = ''service_reference'') (map the serviceList)))"
  unfolding flattenExtensionServicenowObjects_def
  using flatten_loop_acc [of serviceList "[]"] by simp

theorem flatten_keeps_service_references_witness:
  "list_all (\<lambda>s. s \<noteq> None)
     [Some \<lparr>ref_Type = ''service_reference'', ref_ID = ''PA''\<rparr>,
      Some \<lparr>ref_Type = ''team_reference'', ref_ID = ''PT''\<rparr>,
      Some \<lparr>ref_Type = ''service_reference'', ref_ID = ''PB''\<rparr>] \<and>
   flattenExtensionServicenowObjects
     [Some \<lparr>ref_Type = ''service_reference'', ref_ID = ''PA''\<rparr>,
      Some \<lparr>ref_Type = ''team_reference'', ref_ID = ''PT''\<rparr>,
      Some \<lparr>ref_Type = ''service_reference'', ref_ID = ''PB''\<rparr>] = Return [''PA'', ''PB'']"
  using flatten_keeps_service_references
    [of "[Some \<lparr>ref_Type = ''service_reference'', ref_ID = ''PA''\<rparr>,
          Some \<lparr>ref_Type = ''team_reference'', ref_ID = ''PT''\<rparr>,
          Some \<lparr>ref_Type = ''service_reference'', ref_ID = ''PB''\<rparr>]"]
  by simp

subsection \<open>Round trip of the configuration\<close>

lemma coerce_utf8_valid: "valid_utf8 s \<Longrightarrow> coerce_utf8 s = s"
proof (induction s rule: valid_utf8.induct)
  case (1 s)
  show ?case
  proof (cases "s = []")
    case True
    then show ?thesis by (simp add: coerce_utf8.simps)
  next
    case False
    from "1.prems" False have nz: "rune_size s \<noteq> 0" and v: "valid_utf8 (drop (rune_size s) s)"
      by (auto simp: valid_utf8.simps [of s] split: if_splits)
    from "1.IH" [OF False nz v] show ?thesis
      using False nz by (subst coerce_utf8.simps) simp
  qed
qed

lemma find_field_names:
  "find_field ''snow_user'' = Some ''snow_user''"
  "find_field ''snow_password'' = Some ''snow_password''"
  "find_field ''sync_options'' = Some ''sync_options''"
  "find_field ''target'' = Some ''target''"
  "find_field ''task_type'' = Some ''task_type''"
  "find_field ''referer'' = Some ''referer''"
  by (simp_all add: find_field_def config_fields_def)

lemma unmarshal_marshal_struct:
  "json_Unmarshal (json_Marshal (StructPtr c)) c0 =
     (None, c0\<lparr>User := coerce_utf8 (User c), Password := coerce_utf8 (Password c),
               SyncOptions := coerce_utf8 (SyncOptions c), Target := coerce_utf8 (Target c),
               TaskType := coerce_utf8 (TaskType c), Referer := coerce_utf8 (Referer c)\<rparr>)"
  by (simp add: json_Unmarshal_def find_field_names set_field_def)

text \<open>
  Claim C1. For every configuration whose six fields are well-formed UTF-8 strings,
  encoding the struct with \<open>json_Marshal\<close> and decoding the result into a fresh struct
  with \<open>json_Unmarshal\<close> reports no error and gives back a struct with the same six
  fields.
\<close>

theorem config_round_trip:
  "valid_config c \<Longrightarrow>
   json_Unmarshal (json_Marshal (StructPtr c)) new_config = (None, c)"
  by (cases c)
    (simp add: unmarshal_marshal_struct valid_config_def coerce_utf8_valid new_config_def
       del: json_Marshal.simps)

theorem config_round_trip_witness:
  "valid_config \<lparr>User = ''admin'', Password = ''s3cret'', SyncOptions = ''manual_sync'',
                 Target = ''https://dev.service-now.com/incident'', TaskType = ''incident'',
                 Referer = ''None''\<rparr> \<and>
   json_Unmarshal
     (json_Marshal (StructPtr
        \<lparr>User = ''admin'', Password = ''s3cret'', SyncOptions = ''manual_sync'',
         Target = ''https://dev.service-now.com/incident'', TaskType = ''incident'',
         Referer = ''None''\<rparr>)) new_config =
     (None, \<lparr>User = ''admin'', Password = ''s3cret'', SyncOptions = ''manual_sync'',
             Target = ''https://dev.service-now.com/incident'', TaskType = ''incident'',
             Referer = ''None''\<rparr>)"
proof -
  have v: "valid_config \<lparr>User = ''admin'', Password = ''s3cret'', SyncOptions = ''manual_sync'',
                 Target = ''https://dev.service-now.com/incident'', TaskType = ''incident'',
                 Referer = ''None''\<rparr>"
    unfolding valid_config_def by code_simp
  from v config_round_trip [OF v] show ?thesis by (rule conjI)
qed

subsection \<open>Delete\<close>

text \<open>
  Claim C2. When the client's Delete fails with a typed error of code 5001, the Delete
  operation logs the warning and returns no error, and the identity of the resource is
  the one it had: this path returns before \<^verbatim>\<open>d.SetId("")\<close>, which only the path of a
  successful remote call reaches.
\<close>

theorem delete_already_gone_keeps_identity:
  "Extensions_Delete meta (rd_Id (rd st)) = Some (PagerDutyError 5001 message) \<Longrightarrow>
   resourcePagerDutyExtensionServicenowDelete meta st =
     (None,
      log_Printf ''[WARN] Extension (%s) not found, removing from state''
        [ArgString (rd_Id (rd st))]
        (log_Printf ''[INFO] Deleting PagerDuty extension %s'' [ArgString (rd_Id (rd st))] st)) \<and>
   rd_Id (rd (snd (resourcePagerDutyExtensionServicenowDelete meta st))) = rd_Id (rd st)"
  by (simp add: resourcePagerDutyExtensionServicenowDelete_def log_Printf_def Let_def)

theorem delete_already_gone_keeps_identity_witness:
  "Extensions_Delete sample_meta_gone (rd_Id (rd sample_state)) =
     Some (PagerDutyError 5001 ''Extension Not Found'') \<and>
   fst (resourcePagerDutyExtensionServicenowDelete sample_meta_gone sample_state) = None \<and>
   rd_Id (rd (snd (resourcePagerDutyExtensionServicenowDelete sample_meta_gone sample_state))) =
     ''PEXT001''"
proof -
  have h: "Extensions_Delete sample_meta_gone (rd_Id (rd sample_state)) =
     Some (PagerDutyError 5001 ''Extension Not Found'')"
    by (simp add: sample_meta_gone_def sample_meta_def)
  from delete_already_gone_keeps_identity [OF h] h show ?thesis
    by (simp add: sample_state_def sample_data_def log_Printf_def)
qed

subsection \<open>Import\<close>

text \<open>
  Claim C10. When \<^verbatim>\<open>Get\<close> succeeds with an extension whose list of target objects is
  empty, the access to its first element is out of range and Import panics; it does not
  return an error.
\<close>

theorem import_empty_objects_panics:
  "Extensions_Get meta (gets st) (rd_Id (rd st)) = Inr extension \<Longrightarrow>
   ExtensionObjects extension = [] \<Longrightarrow>
   go_index (ExtensionObjects extension) 0 = None \<and>
   resourcePagerDutyExtensionServicenowImport meta st = Panic IndexOutOfRange"
  by (simp add: resourcePagerDutyExtensionServicenowImport_def call_Get_def go_index_def Let_def)

theorem import_empty_objects_panics_witness:
  "Extensions_Get
     (sample_meta\<lparr>Extensions_Get := (\<lambda>n id. Inr (sample_extension\<lparr>ExtensionObjects := []\<rparr>))\<rparr>)
     (gets sample_state) (rd_Id (rd sample_state)) =
     Inr (sample_extension\<lparr>ExtensionObjects := []\<rparr>) \<and>
   ExtensionObjects (sample_extension\<lparr>ExtensionObjects := []\<rparr>) = [] \<and>
   resourcePagerDutyExtensionServicenowImport
     (sample_meta\<lparr>Extensions_Get := (\<lambda>n id. Inr (sample_extension\<lparr>ExtensionObjects := []\<rparr>))\<rparr>)
     sample_state = Panic IndexOutOfRange"
proof -
  let ?e = "sample_extension\<lparr>ExtensionObjects := []\<rparr>"
  let ?m = "sample_meta\<lparr>Extensions_Get := (\<lambda>n id. Inr ?e)\<rparr>"
  have g: "Extensions_Get ?m (gets sample_state) (rd_Id (rd sample_state)) = Inr ?e"
    by simp
  have e: "ExtensionObjects ?e = []"
    by simp
  from import_empty_objects_panics [OF g e] g e show ?thesis
    by blast
qed

text \<open>
  Claim C6. When \<^verbatim>\<open>Get\<close> succeeds with an extension whose target objects are
  \<open>a\<close> followed by any others, and whose schema reference is present, Import returns
  the resource data without an error, and the data differ from the ones before in three
  attributes only: the endpoint URL, the set of target objects, which is the one-element
  set of the identifier of \<open>a\<close>, and the identifier of the schema reference. The
  identity and every other attribute are as before, and nothing is logged.
\<close>

theorem import_partial_seed:
  "Extensions_Get meta (gets st) (rd_Id (rd st)) = Inr extension \<Longrightarrow>
   ExtensionObjects extension = Some a # others \<Longrightarrow>
   ExtensionSchema extension = Some schema \<Longrightarrow>
   \<exists>st'. resourcePagerDutyExtensionServicenowImport meta st = Return (([rd st'], None), st') \<and>
     rd st' =
       (rd st)\<lparr>rd_strings := (rd_strings (rd st))
                  (''endpoint_url'' \<mapsto> EndpointURL extension,
                   ''extension_schema'' \<mapsto> schema_ID schema),
               rd_sets := (rd_sets (rd st))(''extension_objects'' \<mapsto> {ref_ID a})\<rparr> \<and>
     logs st' = logs st"
  by (simp add: resourcePagerDutyExtensionServicenowImport_def call_Get_def go_index_def Let_def
      d_Set_ignored_def d_Set_def rd_Set_def Schema_def)

theorem import_partial_seed_witness:
  "Extensions_Get sample_meta (gets sample_state) (rd_Id (rd sample_state)) = Inr sample_extension \<and>
   ExtensionObjects sample_extension =
     Some \<lparr>ref_Type = ''service_reference'', ref_ID = ''PSVC001''\<rparr> #
     [Some \<lparr>ref_Type = ''service_reference'', ref_ID = ''PSVC002''\<rparr>] \<and>
   ExtensionSchema sample_extension =
     Some \<lparr>schema_Type = ''extension_schema_reference'', schema_ID = ''PJFWPEP''\<rparr> \<and>
   (\<exists>st'. resourcePagerDutyExtensionServicenowImport sample_meta sample_state =
            Return (([rd st'], None), st') \<and>
          rd_sets (rd st') ''extension_objects'' = Some {''PSVC001''} \<and>
          rd_strings (rd st') ''extension_schema'' = Some ''PJFWPEP'' \<and>
          rd_strings (rd st') ''name'' = rd_strings (rd sample_state) ''name'')"
proof -
  have g: "Extensions_Get sample_meta (gets sample_state) (rd_Id (rd sample_state)) =
      Inr sample_extension"
    by (simp add: sample_meta_def)
  have o: "ExtensionObjects sample_extension =
     Some \<lparr>ref_Type = ''service_reference'', ref_ID = ''PSVC001''\<rparr> #
     [Some \<lparr>ref_Type = ''service_reference'', ref_ID = ''PSVC002''\<rparr>]"
    by (simp add: sample_extension_def)
  have s: "ExtensionSchema sample_extension =
     Some \<lparr>schema_Type = ''extension_schema_reference'', schema_ID = ''PJFWPEP''\<rparr>"
    by (simp add: sample_extension_def)
  from import_partial_seed [OF g o s] obtain st' where
    r: "resourcePagerDutyExtensionServicenowImport sample_meta sample_state =
          Return (([rd st'], None), st')" and
    d: "rd st' =
       (rd sample_state)\<lparr>rd_strings := (rd_strings (rd sample_state))
                  (''endpoint_url'' \<mapsto> EndpointURL sample_extension,
                   ''extension_schema'' \<mapsto> ''PJFWPEP''),
               rd_sets := (rd_sets (rd sample_state))(''extension_objects'' \<mapsto> {''PSVC001''})\<rparr>"
    by auto
  have "rd_sets (rd st') ''extension_objects'' = Some {''PSVC001''} \<and>
        rd_strings (rd st') ''extension_schema'' = Some ''PJFWPEP'' \<and>
        rd_strings (rd st') ''name'' = rd_strings (rd sample_state) ''name''"
    by (simp add: d)
  with r g o s show ?thesis by blast
qed

subsection \<open>Propagation of the client's errors\<close>

text \<open>
  Claim C7, as stated, fails for Import: when \<^verbatim>\<open>Get\<close> fails with the error
  \<open>connection refused\<close>, Import returns a different error, made from a fixed text.
\<close>

theorem import_replaces_error_counterexample:
  "Extensions_Get sample_meta_down (gets sample_state) (rd_Id (rd sample_state)) =
     Inl (ErrorString ''connection refused'') \<and>
   resourcePagerDutyExtensionServicenowImport sample_meta_down sample_state =
     Return
       (([], Some (ErrorString
           ''error importing pagerduty_extension. Expecting an importation ID for extension'')),
        sample_state\<lparr>clock := 150, gets := 1\<rparr>) \<and>
   ErrorString ''error importing pagerduty_extension. Expecting an importation ID for extension''
     \<noteq> ErrorString ''connection refused''"
  by (simp add: resourcePagerDutyExtensionServicenowImport_def call_Get_def sample_meta_down_def
      sample_meta_def sample_state_def)


text \<open>
  Claim C7, amended. An error of the client's Create or Update, and an error of the
  client's Delete that is not a typed error of code 5001, is returned by the operation
  as it is, with the resource data unchanged. An error of the \<^verbatim>\<open>Get\<close> performed by
  Import is not returned: Import returns the fixed error \<open>error importing
  pagerduty_extension. Expecting an importation ID for extension\<close> with an empty slice.
\<close>

theorem fatal_errors_propagation:
  "(Extensions_Create meta (buildExtensionServicenowStruct meta (rd st)) = Inl err \<longrightarrow>
      (\<exists>st'. resourcePagerDutyExtensionServicenowCreate meta st = Some (Return (Some err, st')) \<and>
             rd st' = rd st)) \<and>
   (Extensions_Update meta (rd_Id (rd st)) (buildExtensionServicenowStruct meta (rd st)) = Some err \<longrightarrow>
      (\<exists>st'. resourcePagerDutyExtensionServicenowUpdate meta st = Some (Return (Some err, st')) \<and>
             rd st' = rd st)) \<and>
   (Extensions_Delete meta (rd_Id (rd st)) = Some err \<and> (\<forall>message. err \<noteq> PagerDutyError 5001 message) \<longrightarrow>
      (\<exists>st'. resourcePagerDutyExtensionServicenowDelete meta st = (Some err, st') \<and>
             rd st' = rd st)) \<and>
   (Extensions_Get meta (gets st) (rd_Id (rd st)) = Inl err \<longrightarrow>
      (\<exists>st'. resourcePagerDutyExtensionServicenowImport meta st =
         Return
           (([], Some (ErrorString
              ''error importing pagerduty_extension. Expecting an importation ID for extension'')),
            st') \<and>
         rd st' = rd st))"
proof (intro conjI impI)
  assume "Extensions_Create meta (buildExtensionServicenowStruct meta (rd st)) = Inl err"
  then show "\<exists>st'. resourcePagerDutyExtensionServicenowCreate meta st = Some (Return (Some err, st')) \<and>
             rd st' = rd st"
    by (simp add: resourcePagerDutyExtensionServicenowCreate_def Let_def log_Printf_def)
next
  assume "Extensions_Update meta (rd_Id (rd st)) (buildExtensionServicenowStruct meta (rd st)) = Some err"
  then show "\<exists>st'. resourcePagerDutyExtensionServicenowUpdate meta st = Some (Return (Some err, st')) \<and>
             rd st' = rd st"
    by (simp add: resourcePagerDutyExtensionServicenowUpdate_def Let_def log_Printf_def)
next
  assume "Extensions_Delete meta (rd_Id (rd st)) = Some err \<and> (\<forall>message. err \<noteq> PagerDutyError 5001 message)"
  then show "\<exists>st'. resourcePagerDutyExtensionServicenowDelete meta st = (Some err, st') \<and>
             rd st' = rd st"
    by (cases err)
      (auto simp add: resourcePagerDutyExtensionServicenowDelete_def Let_def log_Printf_def)
next
  assume "Extensions_Get meta (gets st) (rd_Id (rd st)) = Inl err"
  then show "\<exists>st'. resourcePagerDutyExtensionServicenowImport meta st =
         Return
           (([], Some (ErrorString
              ''error importing pagerduty_extension. Expecting an importation ID for extension'')),
            st') \<and>
         rd st' = rd st"
    by (simp add: resourcePagerDutyExtensionServicenowImport_def call_Get_def)
qed

theorem fatal_errors_propagation_witness:
  "Extensions_Create sample_meta_down (buildExtensionServicenowStruct sample_meta_down (rd sample_state)) =
     Inl (ErrorString ''connection refused'') \<and>
   (\<exists>st'. resourcePagerDutyExtensionServicenowCreate sample_meta_down sample_state =
      Some (Return (Some (ErrorString ''connection refused''), st')) \<and> rd st' = rd sample_state) \<and>
   Extensions_Update sample_meta_down (rd_Id (rd sample_state))
     (buildExtensionServicenowStruct sample_meta_down (rd sample_state)) =
     Some (ErrorString ''connection refused'') \<and>
   (\<exists>st'. resourcePagerDutyExtensionServicenowUpdate sample_meta_down sample_state =
      Some (Return (Some (ErrorString ''connection refused''), st')) \<and> rd st' = rd sample_state) \<and>
   Extensions_Delete sample_meta_down (rd_Id (rd sample_state)) =
     Some (ErrorString ''connection refused'') \<and>
   (\<forall>message. ErrorString ''connection refused'' \<noteq> PagerDutyError 5001 message) \<and>
   (\<exists>st'. resourcePagerDutyExtensionServicenowDelete sample_meta_down sample_state =
      (Some (ErrorString ''connection refused''), st') \<and> rd st' = rd sample_state) \<and>
   Extensions_Get sample_meta_down (gets sample_state) (rd_Id (rd sample_state)) =
     Inl (ErrorString ''connection refused'') \<and>
   (\<exists>st'. resourcePagerDutyExtensionServicenowImport sample_meta_down sample_state =
      Return
        (([], Some (ErrorString
           ''error importing pagerduty_extension. Expecting an importation ID for extension'')),
         st') \<and>
      rd st' = rd sample_state)"
proof -
  let ?e = "ErrorString ''connection refused''"
  have c: "Extensions_Create sample_meta_down
      (buildExtensionServicenowStruct sample_meta_down (rd sample_state)) = Inl ?e"
    by (simp add: sample_meta_down_def sample_meta_def)
  have u: "Extensions_Update sample_meta_down (rd_Id (rd sample_state))
     (buildExtensionServicenowStruct sample_meta_down (rd sample_state)) = Some ?e"
    by (simp add: sample_meta_down_def sample_meta_def)
  have d: "Extensions_Delete sample_meta_down (rd_Id (rd sample_state)) = Some ?e"
    by (simp add: sample_meta_down_def sample_meta_def)
  have n: "\<forall>message. ?e \<noteq> PagerDutyError 5001 message"
    by simp
  have g: "Extensions_Get sample_meta_down (gets sample_state) (rd_Id (rd sample_state)) = Inl ?e"
    by (simp add: sample_meta_down_def sample_meta_def)
  note t = fatal_errors_propagation [of sample_meta_down sample_state ?e]
  from t c have 1: "\<exists>st'. resourcePagerDutyExtensionServicenowCreate sample_meta_down sample_state =
      Some (Return (Some ?e, st')) \<and> rd st' = rd sample_state"
    by blast
  from t u have 2: "\<exists>st'. resourcePagerDutyExtensionServicenowUpdate sample_meta_down sample_state =
      Some (Return (Some ?e, st')) \<and> rd st' = rd sample_state"
    by blast
  from t d n have 3: "\<exists>st'. resourcePagerDutyExtensionServicenowDelete sample_meta_down sample_state =
      (Some ?e, st') \<and> rd st' = rd sample_state"
    by blast
  from t g have 4: "\<exists>st'. resourcePagerDutyExtensionServicenowImport sample_meta_down sample_state =
      Return
        (([], Some (ErrorString
           ''error importing pagerduty_extension. Expecting an importation ID for extension'')),
         st') \<and>
      rd st' = rd sample_state"
    by blast
  from c 1 u 2 d n 3 g 4 show ?thesis
    by (intro conjI)
qed


subsection \<open>Read: one attempt, and the loop around it\<close>

lemma Retry_loop_done:
  "f st = Return (None, st') \<Longrightarrow> Retry_loop deadline f wait st = Some (Return (None, st'))"
  by (subst Retry_loop.simps) simp

lemma Retry_loop_panic:
  "f st = Panic p \<Longrightarrow> Retry_loop deadline f wait st = Some (Panic p)"
  by (subst Retry_loop.simps) simp

lemma read_attempt_not_found:
  "Extensions_Get meta (gets st) (rd_Id (rd st)) = Inl err \<Longrightarrow> is_not_found meta err \<Longrightarrow>
   read_attempt meta st = Return (None, SetId [] (snd (call_Get meta st)))"
  by (simp add: read_attempt_def call_Get_def handleNotFoundError_def)


lemma Schema_keys:
  "Schema ''summary'' = None"
  "Schema ''name'' = Some TypeString"
  "Schema ''endpoint_url'' = Some TypeString"
  "Schema ''html_url'' = Some TypeString"
  "Schema ''extension_objects'' = Some TypeSet"
  "Schema ''extension_schema'' = Some TypeString"
  "Schema ''snow_user'' = Some TypeString"
  "Schema ''snow_password'' = Some TypeString"
  "Schema ''sync_options'' = Some TypeString"
  "Schema ''target'' = Some TypeString"
  "Schema ''task_type'' = Some TypeString"
  "Schema ''referer'' = Some TypeString"
  by (simp_all add: Schema_def)

lemma d_Set_ignored_string:
  "Schema key = Some TypeString \<Longrightarrow>
   d_Set_ignored key (GoString s) st = st\<lparr>rd := (rd st)\<lparr>rd_strings := (rd_strings (rd st))(key \<mapsto> s)\<rparr>\<rparr>"
  by (simp add: d_Set_ignored_def d_Set_def rd_Set_def)

lemma d_Set_ignored_unknown:
  "Schema key = None \<Longrightarrow> d_Set_ignored key v st = st"
  by (simp add: d_Set_ignored_def d_Set_def rd_Set_def)

lemma d_Set_ignored_schema_ref:
  "Schema key = Some TypeString \<Longrightarrow>
   d_Set_ignored key (GoSchemaRef r) st =
     (case r of
        None \<Rightarrow> st\<lparr>rd := (rd st)\<lparr>rd_strings := (rd_strings (rd st))(key \<mapsto> [])\<rparr>\<rparr>
      | Some _ \<Rightarrow> st)"
  by (simp add: d_Set_ignored_def d_Set_def rd_Set_def split: option.splits)

lemma d_Set_strings:
  "Schema key = Some TypeSet \<Longrightarrow>
   d_Set key (GoStrings xs) st =
     (None, st\<lparr>rd := (rd st)\<lparr>rd_sets := (rd_sets (rd st))(key \<mapsto> set xs)\<rparr>\<rparr>)"
  by (simp add: d_Set_def rd_Set_def)

lemma read_attempt_success:
  assumes g: "Extensions_Get meta (gets st) (rd_Id (rd st)) = Inr extension"
    and f: "flattenExtensionServicenowObjects (ExtensionObjects extension) = Return services"
  shows "read_attempt meta st =
     Return (None,
       st\<lparr>rd := (rd st)\<lparr>rd_strings := read_strings extension (rd_strings (rd st)),
                        rd_sets := (rd_sets (rd st))(''extension_objects'' \<mapsto> set services)\<rparr>,
          clock := clock st + Get_latency meta (gets st),
          gets := gets st + 1\<rparr>)"
  using g f
  by (cases "ExtensionSchema extension")
    (simp_all add: read_attempt_def call_Get_def Let_def Schema_keys d_Set_ignored_string
      d_Set_ignored_unknown d_Set_ignored_schema_ref d_Set_strings read_strings_def)

lemma Read_unfold:
  "resourcePagerDutyExtensionServicenowRead meta st =
     Retry_loop (clock st + 120000) (read_attempt meta) 100
       (st\<lparr>logs := logs st @
              [(''[INFO] Reading PagerDuty extension %s'', [ArgString (rd_Id (rd st))])]\<rparr>)"
  by (simp add: resourcePagerDutyExtensionServicenowRead_def Retry_def log_Printf_def)

lemma Read_success:
  assumes g: "Extensions_Get meta (gets st) (rd_Id (rd st)) = Inr extension"
    and f: "flattenExtensionServicenowObjects (ExtensionObjects extension) = Return services"
  shows "resourcePagerDutyExtensionServicenowRead meta st =
     Some (Return (None,
       st\<lparr>rd := (rd st)\<lparr>rd_strings := read_strings extension (rd_strings (rd st)),
                        rd_sets := (rd_sets (rd st))(''extension_objects'' \<mapsto> set services)\<rparr>,
          logs := logs st @
              [(''[INFO] Reading PagerDuty extension %s'', [ArgString (rd_Id (rd st))])],
          clock := clock st + Get_latency meta (gets st),
          gets := gets st + 1\<rparr>))"
proof -
  let ?st1 = "st\<lparr>logs := logs st @
              [(''[INFO] Reading PagerDuty extension %s'', [ArgString (rd_Id (rd st))])]\<rparr>"
  from g have g1: "Extensions_Get meta (gets ?st1) (rd_Id (rd ?st1)) = Inr extension"
    by simp
  note a = read_attempt_success [OF g1 f]
  show ?thesis
    unfolding Read_unfold
    by (rule trans [OF Retry_loop_done [of "read_attempt meta" ?st1, OF a]]) simp
qed

lemma read_strings_lookup:
  "read_strings extension m ''name'' = Some (Name extension)"
  "read_strings extension m ''endpoint_url'' = Some (EndpointURL extension)"
  "read_strings extension m ''html_url'' = Some (HTMLURL extension)"
  "read_strings extension m ''snow_user'' =
     Some (User (snd (json_Unmarshal (json_Marshal (Config extension)) new_config)))"
  "read_strings extension m ''snow_password'' =
     Some (Password (snd (json_Unmarshal (json_Marshal (Config extension)) new_config)))"
  "read_strings extension m ''sync_options'' =
     Some (SyncOptions (snd (json_Unmarshal (json_Marshal (Config extension)) new_config)))"
  "read_strings extension m ''target'' =
     Some (Target (snd (json_Unmarshal (json_Marshal (Config extension)) new_config)))"
  "read_strings extension m ''task_type'' =
     Some (TaskType (snd (json_Unmarshal (json_Marshal (Config extension)) new_config)))"
  "read_strings extension m ''referer'' =
     Some (Referer (snd (json_Unmarshal (json_Marshal (Config extension)) new_config)))"
  by (simp_all add: read_strings_def Let_def split: option.splits)


lemma Read_not_found:
  assumes "Extensions_Get meta (gets st) (rd_Id (rd st)) = Inl err"
    and "is_not_found meta err"
  shows "\<exists>st'. resourcePagerDutyExtensionServicenowRead meta st = Some (Return (None, st')) \<and>
           rd_Id (rd st') = [] \<and> gets st' = gets st + 1"
proof -
  let ?st1 = "st\<lparr>logs := logs st @
              [(''[INFO] Reading PagerDuty extension %s'', [ArgString (rd_Id (rd st))])]\<rparr>"
  from assms have "read_attempt meta ?st1 = Return (None, SetId [] (snd (call_Get meta ?st1)))"
    by (intro read_attempt_not_found) simp_all
  then have "resourcePagerDutyExtensionServicenowRead meta st =
      Some (Return (None, SetId [] (snd (call_Get meta ?st1))))"
    unfolding Read_unfold by (rule Retry_loop_done)
  then show ?thesis
    by (simp add: SetId_def call_Get_def)
qed


text \<open>
  Claim C3. When the \<^verbatim>\<open>Get\<close> of an attempt fails with an error that the not-found
  classifier recognises as absence, Read returns no error after that one call, and the
  identity of the resource is cleared. This holds for the first attempt of Read, and for
  an attempt at any later point of the retry loop (any deadline, any wait); there the
  rest of the resource data is as it was.
\<close>

theorem read_not_found_clears_identity:
  assumes g: "Extensions_Get meta (gets st) (rd_Id (rd st)) = Inl err"
    and n: "is_not_found meta err"
  shows "(\<exists>st'. resourcePagerDutyExtensionServicenowRead meta st = Some (Return (None, st')) \<and>
           rd_Id (rd st') = [] \<and> gets st' = gets st + 1) \<and>
         (\<forall>deadline wait. \<exists>st'.
            Retry_loop deadline (read_attempt meta) wait st = Some (Return (None, st')) \<and>
            rd st' = (rd st)\<lparr>rd_Id := []\<rparr>)"
proof
  show "\<exists>st'. resourcePagerDutyExtensionServicenowRead meta st = Some (Return (None, st')) \<and>
           rd_Id (rd st') = [] \<and> gets st' = gets st + 1"
    using Read_not_found [OF g n] .
next
  have a: "read_attempt meta st = Return (None, SetId [] (snd (call_Get meta st)))"
    using g n by (rule read_attempt_not_found)
  show "\<forall>deadline wait. \<exists>st'.
            Retry_loop deadline (read_attempt meta) wait st = Some (Return (None, st')) \<and>
            rd st' = (rd st)\<lparr>rd_Id := []\<rparr>"
  proof (intro allI)
    fix deadline wait
    have "Retry_loop deadline (read_attempt meta) wait st =
        Some (Return (None, SetId [] (snd (call_Get meta st))))"
      using a by (rule Retry_loop_done)
    then show "\<exists>st'. Retry_loop deadline (read_attempt meta) wait st = Some (Return (None, st')) \<and>
            rd st' = (rd st)\<lparr>rd_Id := []\<rparr>"
      by (simp add: SetId_def call_Get_def)
  qed
qed

theorem read_not_found_clears_identity_witness:
  "Extensions_Get sample_meta_gone (gets sample_state) (rd_Id (rd sample_state)) =
     Inl (PagerDutyError 2100 ''Not Found'') \<and>
   is_not_found sample_meta_gone (PagerDutyError 2100 ''Not Found'') \<and>
   rd_Id (rd sample_state) = ''PEXT001'' \<and>
   (\<exists>st'. resourcePagerDutyExtensionServicenowRead sample_meta_gone sample_state =
            Some (Return (None, st')) \<and>
          rd_Id (rd st') = [] \<and> gets st' = gets sample_state + 1)"
proof -
  have g: "Extensions_Get sample_meta_gone (gets sample_state) (rd_Id (rd sample_state)) =
     Inl (PagerDutyError 2100 ''Not Found'')"
    by (simp add: sample_meta_gone_def sample_meta_def)
  have n: "is_not_found sample_meta_gone (PagerDutyError 2100 ''Not Found'')"
    by (simp add: sample_meta_gone_def sample_meta_def)
  have i: "rd_Id (rd sample_state) = ''PEXT001''"
    by (simp add: sample_state_def sample_data_def)
  from read_not_found_clears_identity [OF g n] g n i show ?thesis
    by blast
qed

subsection \<open>Read of a configuration that does not decode\<close>

lemma bad_config_marshal:
  "json_Marshal (Config sample_extension_bad_config) =
     JObject [(''snow_user'', JNumber 42), (''target'', JString ''incident'')]"
  by code_simp

lemma bad_config_unmarshal:
  "json_Unmarshal (JObject [(''snow_user'', JNumber 42), (''target'', JString ''incident'')])
     new_config =
     (Some (UnmarshalTypeError ''number'' ''snow_user''), new_config\<lparr>Target := ''incident''\<rparr>)"
  by (simp add: json_Unmarshal_def find_field_names set_field_def saveError_def)

lemma bad_config_flatten:
  "flattenExtensionServicenowObjects (ExtensionObjects sample_extension_bad_config) =
     Return [''PSVC001'', ''PSVC002'']"
  by (simp add: flattenExtensionServicenowObjects_def sample_extension_bad_config_def
      sample_extension_def)


text \<open>
  Claim C9, as stated, fails. The remote extension has the number 42 as \<open>snow_user\<close>, so
  \<open>json_Unmarshal\<close> returns a type error. Read returns no error and writes the name,
  but the only line it logs is the \<open>[INFO]\<close> line written before the loop: there is no
  warning. The schema reference is not written either: the attribute
  \<open>extension_schema\<close>, unset before, is unset after.
\<close>

theorem read_config_error_counterexample:
  "json_Unmarshal (json_Marshal (Config sample_extension_bad_config)) new_config =
     (Some (UnmarshalTypeError ''number'' ''snow_user''), new_config\<lparr>Target := ''incident''\<rparr>) \<and>
   map_option
     (map_go_result
        (\<lambda>(err, st'). (err, logs st', rd_strings (rd st') ''extension_schema'',
                        rd_strings (rd st') ''name'')))
     (resourcePagerDutyExtensionServicenowRead sample_meta_bad_config sample_state_bare) =
     Some (Return
       (None,
        [(''[INFO] Reading PagerDuty extension %s'', [ArgString ''PEXT001''])],
        None,
        Some ''snow''))"
proof -
  have g: "Extensions_Get sample_meta_bad_config (gets sample_state_bare)
      (rd_Id (rd sample_state_bare)) = Inr sample_extension_bad_config"
    by (simp add: sample_meta_bad_config_def)
  have s: "ExtensionSchema sample_extension_bad_config =
      Some \<lparr>schema_Type = ''extension_schema_reference'', schema_ID = ''PJFWPEP''\<rparr>"
    by (simp add: sample_extension_bad_config_def sample_extension_def)
  have n: "Name sample_extension_bad_config = ''snow''"
    by (simp add: sample_extension_bad_config_def sample_extension_def)
  note r = Read_success [OF g bad_config_flatten]
  show ?thesis
    unfolding r
    by (simp add: bad_config_marshal bad_config_unmarshal read_strings_def s n
        sample_state_bare_def Let_def)
qed


text \<open>
  Claim C9, amended. For every Read whose \<^verbatim>\<open>Get\<close> succeeds with an extension (with
  non-nil target objects) whose configuration fails to decode into the struct, the
  decoding error is dropped without a log line (Read logs its \<open>[INFO]\<close> line and nothing
  else), Read returns no error, and the name, the endpoint URL, the HTML URL and the
  flattened target objects are written, as are the six configuration attributes, with
  the fields of the struct as far as it was decoded.
\<close>

theorem read_drops_config_decoding_error:
  assumes g: "Extensions_Get meta (gets st) (rd_Id (rd st)) = Inr extension"
    and nn: "list_all (\<lambda>s. s \<noteq> None) (ExtensionObjects extension)"
    and e: "json_Unmarshal (json_Marshal (Config extension)) new_config = (Some jerr, config)"
  shows "\<exists>st'. resourcePagerDutyExtensionServicenowRead meta st = Some (Return (None, st')) \<and>
     logs st' =
       logs st @ [(''[INFO] Reading PagerDuty extension %s'', [ArgString (rd_Id (rd st))])] \<and>
     rd_Id (rd st') = rd_Id (rd st) \<and>
     rd_strings (rd st') ''name'' = Some (Name extension) \<and>
     rd_strings (rd st') ''endpoint_url'' = Some (EndpointURL extension) \<and>
     rd_strings (rd st') ''html_url'' = Some (HTMLURL extension) \<and>
     rd_sets (rd st') ''extension_objects'' =
       Some (set (map ref_ID (filter (\<lambda>s. ref_Type s = ''service_reference'')
                                (map the (ExtensionObjects extension))))) \<and>
     rd_strings (rd st') ''snow_user'' = Some (User config) \<and>
     rd_strings (rd st') ''snow_password'' = Some (Password config) \<and>
     rd_strings (rd st') ''sync_options'' = Some (SyncOptions config) \<and>
     rd_strings (rd st') ''target'' = Some (Target config) \<and>
     rd_strings (rd st') ''task_type'' = Some (TaskType config) \<and>
     rd_strings (rd st') ''referer'' = Some (Referer config)"
  unfolding Read_success [OF g flatten_non_nil [OF nn]]
  by (simp add: read_strings_lookup e)

theorem read_drops_config_decoding_error_witness:
  "Extensions_Get sample_meta_bad_config (gets sample_state_bare) (rd_Id (rd sample_state_bare)) =
     Inr sample_extension_bad_config \<and>
   list_all (\<lambda>s. s \<noteq> None) (ExtensionObjects sample_extension_bad_config) \<and>
   json_Unmarshal (json_Marshal (Config sample_extension_bad_config)) new_config =
     (Some (UnmarshalTypeError ''number'' ''snow_user''), new_config\<lparr>Target := ''incident''\<rparr>) \<and>
   (\<exists>st'. resourcePagerDutyExtensionServicenowRead sample_meta_bad_config sample_state_bare =
            Some (Return (None, st')) \<and>
      logs st' = [(''[INFO] Reading PagerDuty extension %s'', [ArgString ''PEXT001''])] \<and>
      rd_strings (rd st') ''name'' = Some ''snow'' \<and>
      rd_sets (rd st') ''extension_objects'' = Some {''PSVC001'', ''PSVC002''} \<and>
      rd_strings (rd st') ''snow_user'' = Some [] \<and>
      rd_strings (rd st') ''target'' = Some ''incident'')"
proof -
  have g: "Extensions_Get sample_meta_bad_config (gets sample_state_bare)
      (rd_Id (rd sample_state_bare)) = Inr sample_extension_bad_config"
    by (simp add: sample_meta_bad_config_def)
  have nn: "list_all (\<lambda>s. s \<noteq> None) (ExtensionObjects sample_extension_bad_config)"
    by (simp add: sample_extension_bad_config_def sample_extension_def)
  have e: "json_Unmarshal (json_Marshal (Config sample_extension_bad_config)) new_config =
     (Some (UnmarshalTypeError ''number'' ''snow_user''), new_config\<lparr>Target := ''incident''\<rparr>)"
    by (simp only: bad_config_marshal bad_config_unmarshal)
  from read_drops_config_decoding_error [OF g nn e] obtain st' where
    r: "resourcePagerDutyExtensionServicenowRead sample_meta_bad_config sample_state_bare =
            Some (Return (None, st'))" and
    l: "logs st' = logs sample_state_bare @
          [(''[INFO] Reading PagerDuty extension %s'', [ArgString (rd_Id (rd sample_state_bare))])]" and
    n: "rd_strings (rd st') ''name'' = Some (Name sample_extension_bad_config)" and
    o: "rd_sets (rd st') ''extension_objects'' =
       Some (set (map ref_ID (filter (\<lambda>s. ref_Type s = ''service_reference'')
                                (map the (ExtensionObjects sample_extension_bad_config)))))" and
    u: "rd_strings (rd st') ''snow_user'' = Some (User (new_config\<lparr>Target := ''incident''\<rparr>))" and
    t: "rd_strings (rd st') ''target'' = Some (Target (new_config\<lparr>Target := ''incident''\<rparr>))"
    by blast
  have "logs st' = [(''[INFO] Reading PagerDuty extension %s'', [ArgString ''PEXT001''])] \<and>
      rd_strings (rd st') ''name'' = Some ''snow'' \<and>
      rd_sets (rd st') ''extension_objects'' = Some {''PSVC001'', ''PSVC002''} \<and>
      rd_strings (rd st') ''snow_user'' = Some [] \<and>
      rd_strings (rd st') ''target'' = Some ''incident''"
    unfolding l n o u t
    by (simp add: sample_state_bare_def sample_extension_bad_config_def sample_extension_def
        new_config_def)
  with r g nn e show ?thesis by blast
qed


subsection \<open>Create followed by Read\<close>












subsection \<open>The retry loop of Read comes to an end\<close>






end
